theory Spec2Isabelle
  imports Main "HOL-Library.Word"
begin

section \<open>The persona form: data model\<close>

text \<open>
  The component \<^verbatim>\<open>PersonaApp\<close> (\<^verbatim>\<open>persona-frontend/src/PersonaApp.tsx\<close>; the second copy
  of the file differs in the declared type of the payload and in the markup only) holds
  six hooks, issues two HTTP calls and renders two buttons.

  A JavaScript string is a sequence of UTF-16 code units. The emptiness tests of the
  component and \<^verbatim>\<open>encodeURIComponent\<close> both work on code units, so strings are lists of
  16-bit words. \<open>js\<close> writes an ASCII literal as such a string.
\<close>

type_synonym jsstring = "16 word list"

definition js :: "string \<Rightarrow> jsstring" where
  "js s = map (\<lambda>c. of_nat (of_char c)) s"

text \<open>
  \<^verbatim>\<open>interface PersonaResponse { id: number; persona: PersonaData }\<close>. The payload is
  never inspected by the component, so its type is a parameter. Ids are the integers
  the interface and the service's contract declare, and the body of a fulfilled response
  has the declared shape.
\<close>

record 'p PersonaResponse =
  id_resp :: int
  persona_resp :: 'p

text \<open>
  What a rejected \<^verbatim>\<open>api.post\<close> promise carries (a network fault or a response whose
  status is not a success), and what the \<^verbatim>\<open>catch\<close> blocks can receive.
\<close>

datatype axios_error = NetworkError | BadStatus nat

datatype error = URIError | AxiosError axios_error

datatype 'p settled = Fulfilled "'p PersonaResponse" | Rejected axios_error

text \<open>A request as handed to \<^verbatim>\<open>api.post(url, { text: ... })\<close>.\<close>

datatype http_method = GET | POST | PUT | DELETE

record request =
  http_method :: http_method
  url :: jsstring
  body_text :: jsstring

text \<open>The two async handlers; a suspended one waits for its \<^verbatim>\<open>api.post\<close> promise.\<close>

datatype call = Create | Update

text \<open>
  The six \<^verbatim>\<open>useState\<close> hooks, and around them what the handlers do to the outside:
  the requests handed to axios, the \<^verbatim>\<open>alert\<close> boxes shown, the errors written by
  \<^verbatim>\<open>console.error\<close>, and the handlers suspended at their \<^verbatim>\<open>await\<close>.
\<close>

record 'p state =
  name :: jsstring
  sample :: jsstring
  persona :: "'p PersonaResponse option"
  loading :: bool
  personaId :: "int option"
  newSample :: jsstring

record 'p world = "'p state" +
  requests :: "request list"
  alerts :: "jsstring list"
  console :: "error list"
  pending :: "call list"

definition init :: "'p world" where
  "init = \<lparr> name = [], sample = [], persona = None, loading = False,
            personaId = None, newSample = [],
            requests = [], alerts = [], console = [], pending = [] \<rparr>"

section \<open>Built-ins the handlers call\<close>

subsection \<open>\<^verbatim>\<open>encodeURIComponent\<close>\<close>

text \<open>
  ECMAScript's \<^verbatim>\<open>Encode\<close> with the unreserved set of \<^verbatim>\<open>encodeURIComponent\<close>: the
  ASCII letters, digits and \<^verbatim>\<open>_ - . ! ~ * ' ( )\<close> are copied; any other code point is
  written as the \<^verbatim>\<open>%XX\<close> escapes of its UTF-8 octets; a surrogate without its partner
  throws \<^verbatim>\<open>URIError\<close>.
\<close>

definition unreserved :: "16 word \<Rightarrow> bool" where
  "unreserved c \<longleftrightarrow>
     (0x41 \<le> c \<and> c \<le> 0x5A) \<or> (0x61 \<le> c \<and> c \<le> 0x7A) \<or> (0x30 \<le> c \<and> c \<le> 0x39) \<or>
     c \<in> {0x5F, 0x2D, 0x2E, 0x21, 0x7E, 0x2A, 0x27, 0x28, 0x29}"

definition leading_surrogate :: "16 word \<Rightarrow> bool" where
  "leading_surrogate c \<longleftrightarrow> 0xD800 \<le> c \<and> c \<le> 0xDBFF"

definition trailing_surrogate :: "16 word \<Rightarrow> bool" where
  "trailing_surrogate c \<longleftrightarrow> 0xDC00 \<le> c \<and> c \<le> 0xDFFF"

definition surrogate_pair :: "16 word \<Rightarrow> 16 word \<Rightarrow> nat" where
  "surrogate_pair hi lo = (unat hi - 0xD800) * 0x400 + (unat lo - 0xDC00) + 0x10000"

definition utf8 :: "nat \<Rightarrow> nat list" where
  "utf8 cp =
     (if cp < 0x80 then [cp]
      else if cp < 0x800 then [0xC0 + cp div 0x40, 0x80 + cp mod 0x40]
      else if cp < 0x10000 then
        [0xE0 + cp div 0x1000, 0x80 + cp div 0x40 mod 0x40, 0x80 + cp mod 0x40]
      else
        [0xF0 + cp div 0x40000, 0x80 + cp div 0x1000 mod 0x40,
         0x80 + cp div 0x40 mod 0x40, 0x80 + cp mod 0x40])"

definition hex_digit :: "nat \<Rightarrow> 16 word" where
  "hex_digit d = (if d < 10 then 0x30 + of_nat d else 0x41 + of_nat (d - 10))"

definition escape :: "nat \<Rightarrow> jsstring" where
  "escape octet = [0x25, hex_digit (octet div 16), hex_digit (octet mod 16)]"

fun encodeURIComponent :: "jsstring \<Rightarrow> error + jsstring" where
  "encodeURIComponent [] = Inr []"
| "encodeURIComponent [c] =
     (if unreserved c then Inr [c]
      else if leading_surrogate c \<or> trailing_surrogate c then Inl URIError
      else Inr (concat (map escape (utf8 (unat c)))))"
| "encodeURIComponent (c # d # cs) =
     (if unreserved c then
        (case encodeURIComponent (d # cs) of Inl e \<Rightarrow> Inl e | Inr r \<Rightarrow> Inr (c # r))
      else if trailing_surrogate c then Inl URIError
      else if leading_surrogate c then
        (if trailing_surrogate d then
           (case encodeURIComponent cs of Inl e \<Rightarrow> Inl e
            | Inr r \<Rightarrow> Inr (concat (map escape (utf8 (surrogate_pair c d))) @ r))
         else Inl URIError)
      else
        (case encodeURIComponent (d # cs) of Inl e \<Rightarrow> Inl e
         | Inr r \<Rightarrow> Inr (concat (map escape (utf8 (unat c))) @ r)))"

subsection \<open>Numbers in a template literal\<close>

text \<open>
  \<^verbatim>\<open>`${personaId}`\<close> prints an integer id in decimal, with a minus sign when negative.
\<close>

fun digits :: "nat \<Rightarrow> jsstring" where
  "digits n =
     (if n < 10 then [0x30 + of_nat n]
      else digits (n div 10) @ [0x30 + of_nat (n mod 10)])"

declare digits.simps [simp del]

definition number_toString :: "int \<Rightarrow> jsstring" where
  "number_toString i = (if i < 0 then 0x2D # digits (nat (- i)) else digits (nat i))"

section \<open>The handlers\<close>

text \<open>
  An async handler runs to its \<^verbatim>\<open>await\<close> and is resumed when the promise settles.
  \<open>Suspended\<close> is the world at the \<^verbatim>\<open>await\<close>, \<open>Finished\<close> the world when the
  handler returned without reaching it. A \<^verbatim>\<open>setX(v)\<close> of a hook is the record update
  \<open>X := v\<close>: every setter call of the component passes a value, never an updater.
\<close>

datatype 'w progress = Finished 'w | Suspended 'w

definition alert :: "jsstring \<Rightarrow> 'p world \<Rightarrow> 'p world" where
  "alert msg w = w\<lparr>alerts := alerts w @ [msg]\<rparr>"

definition console_error :: "error \<Rightarrow> 'p world \<Rightarrow> 'p world" where
  "console_error e w = w\<lparr>console := console w @ [e]\<rparr>"

definition post :: "jsstring \<Rightarrow> jsstring \<Rightarrow> 'p world \<Rightarrow> 'p world" where
  "post u t w = w\<lparr>requests := requests w @ [\<lparr>http_method = POST, url = u, body_text = t\<rparr>]\<rparr>"

text \<open>
  \<^verbatim>\<open>generatePersona\<close> up to its \<^verbatim>\<open>await\<close>: \<^verbatim>\<open>setLoading(true)\<close>, then the
  URL is built inside the \<^verbatim>\<open>try\<close>, so a \<^verbatim>\<open>URIError\<close> of \<^verbatim>\<open>encodeURIComponent\<close>
  goes through \<^verbatim>\<open>catch\<close> and \<^verbatim>\<open>finally\<close> with no request made.
\<close>

definition generatePersona_begin :: "'p world \<Rightarrow> 'p world progress" where
  "generatePersona_begin w =
     (let w1 = w\<lparr>loading := True\<rparr> in
      case encodeURIComponent (name w1) of
        Inl e \<Rightarrow>
          Finished ((console_error e (alert (js ''Error creating persona'') w1))\<lparr>loading := False\<rparr>)
      | Inr q \<Rightarrow> Suspended (post (js ''/persona/?name='' @ q) (sample w1) w1))"

text \<open>\<^verbatim>\<open>generatePersona\<close> from the settled promise on: the rest of \<^verbatim>\<open>try\<close>, or
  \<^verbatim>\<open>catch\<close>, then \<^verbatim>\<open>finally\<close>.\<close>

definition generatePersona_resume :: "'p settled \<Rightarrow> 'p world \<Rightarrow> 'p world" where
  "generatePersona_resume r w =
     (case r of
        Fulfilled d \<Rightarrow> w\<lparr>persona := Some d, personaId := Some (id_resp d), loading := False\<rparr>
      | Rejected err \<Rightarrow>
          (console_error (AxiosError err) (alert (js ''Error creating persona'') w))\<lparr>loading := False\<rparr>)"

definition generatePersona :: "'p settled \<Rightarrow> 'p world \<Rightarrow> 'p world" where
  "generatePersona r w =
     (case generatePersona_begin w of
        Finished w' \<Rightarrow> w'
      | Suspended w' \<Rightarrow> generatePersona_resume r w')"

text \<open>
  \<^verbatim>\<open>addToPersona\<close>, the same way. \<^verbatim>\<open>if (!personaId) return;\<close> comes first:
  on a \<^verbatim>\<open>number | null\<close>, both \<^verbatim>\<open>null\<close> and \<^verbatim>\<open>0\<close> are falsy.
\<close>

definition addToPersona_begin :: "'p world \<Rightarrow> 'p world progress" where
  "addToPersona_begin w =
     (case personaId w of
        None \<Rightarrow> Finished w
      | Some i \<Rightarrow>
          if i = 0 then Finished w
          else
            let w1 = w\<lparr>loading := True\<rparr> in
            Suspended
              (post (js ''/persona/'' @ number_toString i @ js ''/add_sample'') (newSample w1) w1))"

definition addToPersona_resume :: "'p settled \<Rightarrow> 'p world \<Rightarrow> 'p world" where
  "addToPersona_resume r w =
     (case r of
        Fulfilled d \<Rightarrow> w\<lparr>persona := Some d, newSample := [], loading := False\<rparr>
      | Rejected err \<Rightarrow>
          (console_error (AxiosError err) (alert (js ''Error updating persona'') w))\<lparr>loading := False\<rparr>)"

definition addToPersona :: "'p settled \<Rightarrow> 'p world \<Rightarrow> 'p world" where
  "addToPersona r w =
     (case addToPersona_begin w of
        Finished w' \<Rightarrow> w'
      | Suspended w' \<Rightarrow> addToPersona_resume r w')"

section \<open>Rendering and events\<close>

text \<open>
  What the JSX decides: \<^verbatim>\<open>disabled={loading || !name || !sample}\<close> on the first
  button, \<^verbatim>\<open>{persona && (...)}\<close> around the refinement section, and
  \<^verbatim>\<open>disabled={loading || !newSample}\<close> on the second button. A string is falsy when
  it is empty, a \<^verbatim>\<open>PersonaResponse | null\<close> when it is \<^verbatim>\<open>null\<close>.
\<close>

definition generate_disabled :: "'p world \<Rightarrow> bool" where
  "generate_disabled w \<longleftrightarrow> loading w \<or> name w = [] \<or> sample w = []"

definition refinement_shown :: "'p world \<Rightarrow> bool" where
  "refinement_shown w \<longleftrightarrow> persona w \<noteq> None"

definition add_disabled :: "'p world \<Rightarrow> bool" where
  "add_disabled w \<longleftrightarrow> loading w \<or> newSample w = []"

text \<open>
  What can happen to a mounted component: the user edits one of the three fields
  (\<^verbatim>\<open>onChange\<close>), clicks one of the two buttons, or the promise of a suspended handler
  settles. \<open>Settle i r\<close> settles the \<open>i\<close>-th suspended handler with \<open>r\<close>. A control
  that is not rendered, or a disabled button, delivers no event.
\<close>

datatype 'p event =
    ChangeName jsstring
  | ChangeSample jsstring
  | ChangeNewSample jsstring
  | ClickGenerate
  | ClickAdd
  | Settle nat "'p settled"

fun launch :: "call \<Rightarrow> 'p world progress \<Rightarrow> 'p world" where
  "launch c (Finished w) = w"
| "launch c (Suspended w) = w\<lparr>pending := pending w @ [c]\<rparr>"

fun resume :: "call \<Rightarrow> 'p settled \<Rightarrow> 'p world \<Rightarrow> 'p world" where
  "resume Create r w = generatePersona_resume r w"
| "resume Update r w = addToPersona_resume r w"

fun step :: "'p event \<Rightarrow> 'p world \<Rightarrow> 'p world" where
  "step (ChangeName v) w = w\<lparr>name := v\<rparr>"
| "step (ChangeSample v) w = w\<lparr>sample := v\<rparr>"
| "step (ChangeNewSample v) w = (if refinement_shown w then w\<lparr>newSample := v\<rparr> else w)"
| "step ClickGenerate w =
     (if generate_disabled w then w else launch Create (generatePersona_begin w))"
| "step ClickAdd w =
     (if refinement_shown w \<and> \<not> add_disabled w then launch Update (addToPersona_begin w)
      else w)"
| "step (Settle i r) w =
     (if i < length (pending w) then
        resume (pending w ! i) r (w\<lparr>pending := take i (pending w) @ drop (Suc i) (pending w)\<rparr>)
      else w)"

fun run :: "'p event list \<Rightarrow> 'p world \<Rightarrow> 'p world" where
  "run [] w = w"
| "run (e # es) w = run es (step e w)"

section \<open>Notions the properties are stated with\<close>

subsection \<open>The four states of the form\<close>






subsection \<open>Histories\<close>

text \<open>The ids of the responses that fulfilled a create call, along a sequence of events.\<close>

definition created_now :: "'p world \<Rightarrow> 'p event \<Rightarrow> int list" where
  "created_now w e =
     (case e of
        Settle i (Fulfilled d) \<Rightarrow>
          if i < length (pending w) \<and> pending w ! i = Create then [id_resp d] else []
      | _ \<Rightarrow> [])"

fun created_ids :: "'p world \<Rightarrow> 'p event list \<Rightarrow> int list" where
  "created_ids w [] = []"
| "created_ids w (e # es) = created_now w e @ created_ids (step e w) es"

text \<open>
  A service that answers a refinement with the id the persona already has:
  every response fulfilling an update call carries the PersonaId of that moment.
\<close>

definition echo_now :: "'p world \<Rightarrow> 'p event \<Rightarrow> bool" where
  "echo_now w e =
     (case e of
        Settle i (Fulfilled d) \<Rightarrow>
          i < length (pending w) \<and> pending w ! i = Update \<longrightarrow> personaId w = Some (id_resp d)
      | _ \<Rightarrow> True)"

fun echoes_id :: "'p world \<Rightarrow> 'p event list \<Rightarrow> bool" where
  "echoes_id w [] = True"
| "echoes_id w (e # es) = (echo_now w e \<and> echoes_id (step e w) es)"

subsection \<open>The shape of the two requests\<close>



subsection \<open>Sample data\<close>

text \<open>
  The scenario of the specification: the name \<^verbatim>\<open>Hemingwayish\<close>, the sample
  \<^verbatim>\<open>It was a good day.\<close>, a service answering with id 1, and the refinement
  \<^verbatim>\<open>The sea was calm.\<close>; beside it a service answering with another id, one
  answering with id 0, and a name that is a lone surrogate.
\<close>

definition response_1 :: "string PersonaResponse" where
  "response_1 = \<lparr>id_resp = 1, persona_resp = ''{summary: terse}''\<rparr>"

definition response_1_refined :: "string PersonaResponse" where
  "response_1_refined = \<lparr>id_resp = 1, persona_resp = ''{summary: terse, calm}''\<rparr>"

definition response_2 :: "string PersonaResponse" where
  "response_2 = \<lparr>id_resp = 2, persona_resp = ''{summary: terse, calm}''\<rparr>"

definition response_0 :: "string PersonaResponse" where
  "response_0 = \<lparr>id_resp = 0, persona_resp = ''{summary: terse}''\<rparr>"

definition filled_in :: "string event list" where
  "filled_in = [ChangeName (js ''Hemingwayish''), ChangeSample (js ''It was a good day.'')]"

definition to_generating :: "string event list" where
  "to_generating = filled_in @ [ClickGenerate]"

definition to_ready :: "string event list" where
  "to_ready = to_generating @ [Settle 0 (Fulfilled response_1)]"

definition to_refinable :: "string event list" where
  "to_refinable = to_ready @ [ChangeNewSample (js ''The sea was calm.'')]"

definition to_refining :: "string event list" where
  "to_refining = to_refinable @ [ClickAdd]"

definition to_ready_0 :: "string event list" where
  "to_ready_0 =
     to_generating @ [Settle 0 (Fulfilled response_0), ChangeNewSample (js ''The sea was calm.'')]"


definition retries :: "string event list" where
  "retries =
     [ChangeNewSample (js ''The sea was calm.''), ClickAdd, ClickGenerate,
      Settle 0 (Rejected NetworkError), ClickAdd, ClickGenerate,
      Settle 0 (Fulfilled response_0), ClickAdd]"

definition regenerated :: "string event list" where
  "regenerated = to_ready_0 @ [ClickGenerate, Settle 0 (Fulfilled response_1), ClickAdd]"

definition hemingwayish :: "string world" where
  "hemingwayish = run filled_in init"

definition calm_sea :: "string world" where
  "calm_sea = run to_refinable init"

subsection \<open>Consistency of the world\<close>

text \<open>
  What holds of every world the form can reach: the loading flag is up exactly while a
  handler is suspended, at most one is, an update is only under way with a record on
  display, and a record on display comes with a PersonaId.
\<close>

definition consistent :: "'p world \<Rightarrow> bool" where
  "consistent w \<longleftrightarrow>
     (loading w \<longleftrightarrow> pending w \<noteq> []) \<and> length (pending w) \<le> 1 \<and>
     (Update \<in> set (pending w) \<longrightarrow> persona w \<noteq> None) \<and>
     (persona w \<noteq> None \<longrightarrow> personaId w \<noteq> None)"

section \<open>The built-ins on examples\<close>

lemmas handler_defs = generatePersona_def generatePersona_begin_def generatePersona_resume_def
  addToPersona_def addToPersona_begin_def addToPersona_resume_def alert_def console_error_def post_def

lemmas view_defs = generate_disabled_def refinement_shown_def add_disabled_def

lemmas encode_defs = js_def unreserved_def leading_surrogate_def trailing_surrogate_def
  surrogate_pair_def utf8_def escape_def hex_digit_def

lemma encodeURIComponent_examples:
  "encodeURIComponent (js ''Papa & Co/'' @ [0xE9, 0xD83D, 0xDE00, 0x20AC]) =
     Inr (js ''Papa%20%26%20Co%2F%C3%A9%F0%9F%98%80%E2%82%AC'')"
  "encodeURIComponent (js ''Papa'' @ [0xD83D]) = Inl URIError"
  "encodeURIComponent (0xDE00 # js ''Papa'') = Inl URIError"
  by (simp_all add: encode_defs)

lemma number_toString_examples:
  "number_toString 0 = js ''0''" "number_toString 1205 = js ''1205''"
  "number_toString (- 37) = js ''-37''"
  by (simp_all add: number_toString_def digits.simps js_def)

lemma begin_hemingwayish:
  "generatePersona_begin hemingwayish =
     Suspended (post (js ''/persona/?name=Hemingwayish'') (js ''It was a good day.'')
       (hemingwayish\<lparr>loading := True\<rparr>))"
  by code_simp

lemma begin_calm_sea:
  "addToPersona_begin calm_sea =
     Suspended (post (js ''/persona/1/add_sample'') (js ''The sea was calm.'')
       (calm_sea\<lparr>loading := True\<rparr>))"
  by code_simp

lemma pending_generating: "pending (step ClickGenerate hemingwayish) = [Create]"
  by code_simp

lemma pending_refining: "pending (step ClickAdd calm_sea) = [Update]"
  by code_simp

section \<open>What a settled call does to the hooks\<close>

text \<open>
  Claim C1. When the create call was made and its promise is fulfilled with a response
  \<open>d\<close>, the stored record is \<open>d\<close> and the PersonaId is the id of \<open>d\<close>: for the
  handler run as a whole, and for the settling of a suspended create call in any world
  (whatever was typed in between). Nothing is asked of the name and the sample beyond
  the call having been made, so this holds for every non-empty pair.
\<close>

theorem create_success:
  assumes "generatePersona_begin w = Suspended w1"
    and "i < length (pending v)" and "pending v ! i = Create"
  shows "persona (generatePersona (Fulfilled d) w) = Some d \<and>
         personaId (generatePersona (Fulfilled d) w) = Some (id_resp d) \<and>
         persona (step (Settle i (Fulfilled d)) v) = Some d \<and>
         personaId (step (Settle i (Fulfilled d)) v) = Some (id_resp d)"
  using assms by (simp add: generatePersona_def generatePersona_resume_def)

theorem create_success_witness:
  "generatePersona_begin hemingwayish =
     Suspended (post (js ''/persona/?name=Hemingwayish'') (js ''It was a good day.'')
       (hemingwayish\<lparr>loading := True\<rparr>)) \<and>
   pending (step ClickGenerate hemingwayish) = [Create] \<and>
   persona (generatePersona (Fulfilled response_1) hemingwayish) = Some response_1 \<and>
   personaId (generatePersona (Fulfilled response_1) hemingwayish) = Some 1 \<and>
   persona (step (Settle 0 (Fulfilled response_1)) (step ClickGenerate hemingwayish)) =
     Some response_1 \<and>
   personaId (step (Settle 0 (Fulfilled response_1)) (step ClickGenerate hemingwayish)) = Some 1"
proof -
  note b = begin_hemingwayish and p = pending_generating
  from p have l: "0 < length (pending (step ClickGenerate hemingwayish))"
    and c: "pending (step ClickGenerate hemingwayish) ! 0 = Create" by simp_all
  have i: "id_resp response_1 = 1" by (simp add: response_1_def)
  from create_success [OF b l c, of response_1] b p i show ?thesis by simp
qed

text \<open>
  Claim C2. When the create call was made and its promise is rejected (by a network
  fault or by a status that is no success), the stored record and the PersonaId are
  what they were, and one more alert box, \<^verbatim>\<open>Error creating persona\<close>, has been shown.
\<close>

theorem create_failure:
  assumes "generatePersona_begin w = Suspended w1"
    and "i < length (pending v)" and "pending v ! i = Create"
  shows "persona (generatePersona (Rejected err) w) = persona w \<and>
         personaId (generatePersona (Rejected err) w) = personaId w \<and>
         alerts (generatePersona (Rejected err) w) = alerts w @ [js ''Error creating persona''] \<and>
         persona (step (Settle i (Rejected err')) v) = persona v \<and>
         personaId (step (Settle i (Rejected err')) v) = personaId v \<and>
         alerts (step (Settle i (Rejected err')) v) = alerts v @ [js ''Error creating persona'']"
  using assms by (auto simp: handler_defs Let_def split: sum.splits)

theorem create_failure_witness:
  "generatePersona_begin calm_sea =
     Suspended (post (js ''/persona/?name=Hemingwayish'') (js ''It was a good day.'')
       (calm_sea\<lparr>loading := True\<rparr>)) \<and>
   pending (step ClickGenerate calm_sea) = [Create] \<and>
   persona (generatePersona (Rejected NetworkError) calm_sea) = Some response_1 \<and>
   personaId (generatePersona (Rejected NetworkError) calm_sea) = Some 1 \<and>
   alerts (generatePersona (Rejected NetworkError) calm_sea) = [js ''Error creating persona''] \<and>
   persona (step (Settle 0 (Rejected (BadStatus 500))) (step ClickGenerate calm_sea)) =
     Some response_1 \<and>
   personaId (step (Settle 0 (Rejected (BadStatus 500))) (step ClickGenerate calm_sea)) = Some 1 \<and>
   alerts (step (Settle 0 (Rejected (BadStatus 500))) (step ClickGenerate calm_sea)) =
     [js ''Error creating persona'']"
proof -
  have b: "generatePersona_begin calm_sea =
     Suspended (post (js ''/persona/?name=Hemingwayish'') (js ''It was a good day.'')
       (calm_sea\<lparr>loading := True\<rparr>))"
    by code_simp
  have p: "pending (step ClickGenerate calm_sea) = [Create]" by code_simp
  have s: "persona calm_sea = Some response_1" "personaId calm_sea = Some 1" "alerts calm_sea = []"
    "persona (step ClickGenerate calm_sea) = Some response_1"
    "personaId (step ClickGenerate calm_sea) = Some 1" "alerts (step ClickGenerate calm_sea) = []"
    by code_simp+
  from p have l: "0 < length (pending (step ClickGenerate calm_sea))"
    and c: "pending (step ClickGenerate calm_sea) ! 0 = Create" by simp_all
  from create_failure [OF b l c, of NetworkError "BadStatus 500"] b p s show ?thesis by simp
qed

text \<open>
  Claim C3. When \<^verbatim>\<open>addToPersona\<close> made its update call (so a PersonaId was set) and the
  promise is fulfilled with \<open>d\<close>, the stored record is \<open>d\<close> as a whole and the
  refinement input is the empty string.
\<close>

theorem refine_success:
  assumes "addToPersona_begin w = Suspended w1"
    and "i < length (pending v)" and "pending v ! i = Update"
  shows "persona (addToPersona (Fulfilled d) w) = Some d \<and>
         newSample (addToPersona (Fulfilled d) w) = [] \<and>
         persona (step (Settle i (Fulfilled d)) v) = Some d \<and>
         newSample (step (Settle i (Fulfilled d)) v) = []"
  using assms by (simp add: addToPersona_def addToPersona_resume_def)

theorem refine_success_witness:
  "addToPersona_begin calm_sea =
     Suspended (post (js ''/persona/1/add_sample'') (js ''The sea was calm.'')
       (calm_sea\<lparr>loading := True\<rparr>)) \<and>
   pending (step ClickAdd calm_sea) = [Update] \<and>
   persona calm_sea = Some response_1 \<and>
   newSample calm_sea = js ''The sea was calm.'' \<and>
   persona (addToPersona (Fulfilled response_2) calm_sea) = Some response_2 \<and>
   newSample (addToPersona (Fulfilled response_2) calm_sea) = [] \<and>
   persona (step (Settle 0 (Fulfilled response_2)) (step ClickAdd calm_sea)) = Some response_2 \<and>
   newSample (step (Settle 0 (Fulfilled response_2)) (step ClickAdd calm_sea)) = []"
proof -
  have b: "addToPersona_begin calm_sea =
     Suspended (post (js ''/persona/1/add_sample'') (js ''The sea was calm.'')
       (calm_sea\<lparr>loading := True\<rparr>))"
    by (rule begin_calm_sea)
  have p: "pending (step ClickAdd calm_sea) = [Update]" by (rule pending_refining)
  have s: "persona calm_sea = Some response_1" "newSample calm_sea = js ''The sea was calm.''"
    by code_simp+
  from p have l: "0 < length (pending (step ClickAdd calm_sea))"
    and c: "pending (step ClickAdd calm_sea) ! 0 = Update" by simp_all
  from refine_success [OF b l c, of response_2] b p s show ?thesis by simp
qed

text \<open>
  Claim C4. When the update call was made and its promise is rejected, the stored
  record is what it was, the refinement input keeps its contents, and one more alert
  box, \<^verbatim>\<open>Error updating persona\<close>, has been shown.
\<close>

theorem refine_failure:
  assumes "addToPersona_begin w = Suspended w1"
    and "i < length (pending v)" and "pending v ! i = Update"
  shows "persona (addToPersona (Rejected err) w) = persona w \<and>
         newSample (addToPersona (Rejected err) w) = newSample w \<and>
         alerts (addToPersona (Rejected err) w) = alerts w @ [js ''Error updating persona''] \<and>
         persona (step (Settle i (Rejected err')) v) = persona v \<and>
         newSample (step (Settle i (Rejected err')) v) = newSample v \<and>
         alerts (step (Settle i (Rejected err')) v) = alerts v @ [js ''Error updating persona'']"
  using assms by (auto simp: handler_defs Let_def split: option.splits if_splits)

theorem refine_failure_witness:
  "addToPersona_begin calm_sea =
     Suspended (post (js ''/persona/1/add_sample'') (js ''The sea was calm.'')
       (calm_sea\<lparr>loading := True\<rparr>)) \<and>
   pending (step ClickAdd calm_sea) = [Update] \<and>
   persona (addToPersona (Rejected NetworkError) calm_sea) = Some response_1 \<and>
   newSample (addToPersona (Rejected NetworkError) calm_sea) = js ''The sea was calm.'' \<and>
   alerts (addToPersona (Rejected NetworkError) calm_sea) = [js ''Error updating persona''] \<and>
   persona (step (Settle 0 (Rejected (BadStatus 500))) (step ClickAdd calm_sea)) = Some response_1 \<and>
   newSample (step (Settle 0 (Rejected (BadStatus 500))) (step ClickAdd calm_sea)) =
     js ''The sea was calm.'' \<and>
   alerts (step (Settle 0 (Rejected (BadStatus 500))) (step ClickAdd calm_sea)) =
     [js ''Error updating persona'']"
proof -
  have b: "addToPersona_begin calm_sea =
     Suspended (post (js ''/persona/1/add_sample'') (js ''The sea was calm.'')
       (calm_sea\<lparr>loading := True\<rparr>))"
    by (rule begin_calm_sea)
  have p: "pending (step ClickAdd calm_sea) = [Update]" by (rule pending_refining)
  have s: "persona calm_sea = Some response_1" "newSample calm_sea = js ''The sea was calm.''"
    "alerts calm_sea = []"
    "persona (step ClickAdd calm_sea) = Some response_1"
    "newSample (step ClickAdd calm_sea) = js ''The sea was calm.''"
    "alerts (step ClickAdd calm_sea) = []"
    by code_simp+
  from p have l: "0 < length (pending (step ClickAdd calm_sea))"
    and c: "pending (step ClickAdd calm_sea) ! 0 = Update" by simp_all
  from refine_failure [OF b l c, of NetworkError "BadStatus 500"] b p s show ?thesis by simp
qed

text \<open>
  Claim C5. With the PersonaId unset, \<^verbatim>\<open>addToPersona\<close> returns at once and the world
  after it is the world before it: no request is added, and no hook (record, refinement
  input, loading flag) has another value.
\<close>

theorem add_without_id_noop:
  assumes "personaId w = None"
  shows "addToPersona_begin w = Finished w \<and> addToPersona r w = w \<and> step ClickAdd w = w"
  using assms by (simp add: addToPersona_def addToPersona_begin_def)

theorem add_without_id_noop_witness:
  "personaId (hemingwayish\<lparr>newSample := js ''The sea was calm.''\<rparr>) = None \<and>
   addToPersona_begin (hemingwayish\<lparr>newSample := js ''The sea was calm.''\<rparr>) =
     Finished (hemingwayish\<lparr>newSample := js ''The sea was calm.''\<rparr>) \<and>
   addToPersona (Fulfilled response_1) (hemingwayish\<lparr>newSample := js ''The sea was calm.''\<rparr>) =
     hemingwayish\<lparr>newSample := js ''The sea was calm.''\<rparr> \<and>
   step ClickAdd (hemingwayish\<lparr>newSample := js ''The sea was calm.''\<rparr>) =
     hemingwayish\<lparr>newSample := js ''The sea was calm.''\<rparr>"
proof -
  have n: "personaId (hemingwayish\<lparr>newSample := js ''The sea was calm.''\<rparr>) = None"
    by code_simp
  from add_without_id_noop [OF n, of "Fulfilled response_1"] n show ?thesis by simp
qed

section \<open>The worlds the form can reach\<close>

lemma consistent_init: "consistent init"
  by (simp add: consistent_def init_def)

lemma pending_single: "length xs \<le> Suc 0 \<Longrightarrow> i < length xs \<Longrightarrow> i = 0 \<and> xs = [xs ! 0]"
  by (cases xs) auto

lemma consistent_step: "consistent w \<Longrightarrow> consistent (step e w)"
proof (cases e)
  case ClickGenerate
  assume "consistent w"
  then show ?thesis using ClickGenerate
    by (auto simp: consistent_def view_defs handler_defs Let_def split: sum.splits)
next
  case ClickAdd
  assume "consistent w"
  then show ?thesis using ClickAdd
    by (auto simp: consistent_def view_defs handler_defs Let_def split: option.splits)
next
  case (Settle i r)
  assume c: "consistent w"
  show ?thesis
  proof (cases "i < length (pending w)")
    case False
    with c Settle show ?thesis by simp
  next
    case True
    with c have p: "i = 0" "pending w = [pending w ! 0]"
      using pending_single [of "pending w" i] by (auto simp: consistent_def)
    then obtain k where k: "pending w = [k]" by metis
    with c Settle p show ?thesis
      by (cases k; cases r) (auto simp: consistent_def handler_defs)
  qed
qed (auto simp: consistent_def view_defs)

lemma consistent_run: "consistent w \<Longrightarrow> consistent (run evs w)"
  by (induction evs arbitrary: w) (auto simp: consistent_step)

lemma consistent_reachable: "consistent (run evs init)"
  by (rule consistent_run [OF consistent_init])

text \<open>
  Claim C8. Each handler that reaches its request has set the loading flag before; in
  every world reachable from the initial one the flag is up exactly while a request is
  in flight, and at most one is; and the handler resumed after its request, fulfilled
  or rejected, leaves the flag down.
\<close>

theorem loading_while_in_flight:
  assumes "generatePersona_begin w = Suspended w1" and "addToPersona_begin v = Suspended v1"
  shows "loading w1 \<and> loading v1 \<and>
         loading (run evs init) = (pending (run evs init) \<noteq> []) \<and>
         length (pending (run evs init)) \<le> 1 \<and>
         \<not> loading (generatePersona_resume r u) \<and> \<not> loading (addToPersona_resume r u)"
proof -
  from assms(1) have a: "loading w1"
    by (auto simp: generatePersona_begin_def post_def Let_def split: sum.splits)
  from assms(2) have b: "loading v1"
    by (auto simp: addToPersona_begin_def post_def Let_def split: option.splits if_splits)
  have c: "loading (run evs init) = (pending (run evs init) \<noteq> [])"
    "length (pending (run evs init)) \<le> 1"
    using consistent_reachable [of evs] by (simp_all add: consistent_def)
  have d: "\<not> loading (generatePersona_resume r u)" "\<not> loading (addToPersona_resume r u)"
    by (cases r; simp add: handler_defs)+
  from a b c d show ?thesis by simp
qed

theorem loading_while_in_flight_witness:
  "generatePersona_begin hemingwayish =
     Suspended (post (js ''/persona/?name=Hemingwayish'') (js ''It was a good day.'')
       (hemingwayish\<lparr>loading := True\<rparr>)) \<and>
   addToPersona_begin calm_sea =
     Suspended (post (js ''/persona/1/add_sample'') (js ''The sea was calm.'')
       (calm_sea\<lparr>loading := True\<rparr>)) \<and>
   loading (post (js ''/persona/?name=Hemingwayish'') (js ''It was a good day.'')
       (hemingwayish\<lparr>loading := True\<rparr>)) \<and>
   loading (post (js ''/persona/1/add_sample'') (js ''The sea was calm.'')
       (calm_sea\<lparr>loading := True\<rparr>)) \<and>
   pending (run to_refining init) = [Update] \<and> loading (run to_refining init) \<and>
   pending (run to_ready init) = [] \<and> \<not> loading (run to_ready init) \<and>
   \<not> loading (generatePersona_resume (Rejected NetworkError) (run to_generating init)) \<and>
   \<not> loading (addToPersona_resume (Rejected NetworkError) (run to_generating init))"
proof -
  have p: "pending (run to_refining init) = [Update]" "pending (run to_ready init) = []"
    by code_simp+
  note a = loading_while_in_flight [OF begin_hemingwayish begin_calm_sea,
      of to_refining "Rejected NetworkError" "run to_generating init"]
  note b = loading_while_in_flight [OF begin_hemingwayish begin_calm_sea,
      of to_ready "Rejected NetworkError" "run to_generating init"]
  from a b p begin_hemingwayish begin_calm_sea show ?thesis by simp
qed

section \<open>The PersonaId and the id of the record\<close>

lemma id_kept_step:
  assumes "echo_now w e" and "\<forall>p. persona w = Some p \<longrightarrow> personaId w = Some (id_resp p)"
  shows "\<forall>p. persona (step e w) = Some p \<longrightarrow> personaId (step e w) = Some (id_resp p)"
proof (cases e)
  case ClickGenerate
  with assms(2) show ?thesis
    by (auto simp: handler_defs Let_def split: sum.splits)
next
  case ClickAdd
  with assms(2) show ?thesis
    by (auto simp: handler_defs Let_def split: option.splits)
next
  case (Settle i r)
  show ?thesis
  proof (cases "i < length (pending w)")
    case False
    with Settle assms(2) show ?thesis by simp
  next
    case True
    with Settle assms show ?thesis
      by (cases r; cases "pending w ! i") (auto simp: echo_now_def handler_defs)
  qed
qed (use assms(2) in auto)

lemma id_kept_run:
  "echoes_id w evs \<Longrightarrow> \<forall>p. persona w = Some p \<longrightarrow> personaId w = Some (id_resp p) \<Longrightarrow>
   \<forall>p. persona (run evs w) = Some p \<longrightarrow> personaId (run evs w) = Some (id_resp p)"
proof (induction evs arbitrary: w)
  case Nil
  then show ?case by simp
next
  case (Cons e es)
  from Cons.prems have "echo_now w e" "echoes_id (step e w) es" by simp_all
  with Cons.prems(2) Cons.IH [of "step e w"] id_kept_step [of w e] show ?case by simp
qed

text \<open>
  Claim C6 says that in every reachable world with a record, the PersonaId is the id
  of the record. \<^verbatim>\<open>addToPersona\<close> stores the response and leaves the PersonaId alone:
  after a create answered with id 1 and a refinement answered with id 2, the record
  carries 2 and the PersonaId is 1.
\<close>

theorem id_of_record_counterexample:
  "persona (run (to_refining @ [Settle 0 (Fulfilled response_2)]) init) = Some response_2 \<and>
   personaId (run (to_refining @ [Settle 0 (Fulfilled response_2)]) init) \<noteq>
     Some (id_resp response_2)"
  by code_simp

text \<open>
  Claim C6, amended. When every fulfilled refinement carries the id the persona already
  has, then in every reachable world with a record the PersonaId is the id of the record.
\<close>

theorem id_of_record:
  assumes "echoes_id init evs" and "persona (run evs init) = Some p"
  shows "personaId (run evs init) = Some (id_resp p)"
  using id_kept_run [OF assms(1)] assms(2) by (simp add: init_def)

theorem id_of_record_witness:
  "echoes_id init (to_refining @ [Settle 0 (Fulfilled response_1_refined)]) \<and>
   persona (run (to_refining @ [Settle 0 (Fulfilled response_1_refined)]) init) =
     Some response_1_refined \<and>
   personaId (run (to_refining @ [Settle 0 (Fulfilled response_1_refined)]) init) = Some 1"
proof -
  have e: "echoes_id init (to_refining @ [Settle 0 (Fulfilled response_1_refined)])"
    by code_simp
  have p: "persona (run (to_refining @ [Settle 0 (Fulfilled response_1_refined)]) init) =
     Some response_1_refined"
    by code_simp
  have i: "id_resp response_1_refined = 1" by (simp add: response_1_refined_def)
  from id_of_record [OF e p] e p i show ?thesis by simp
qed

section \<open>The state machine\<close>




section \<open>The requests\<close>


















section \<open>The id 0\<close>

lemma personaId_zero_step:
  assumes "personaId w = Some 0" and "list_all (\<lambda>i. i = 0) (created_now w e)"
  shows "personaId (step e w) = Some 0"
proof (cases e)
  case ClickGenerate
  with assms(1) show ?thesis
    by (auto simp: handler_defs Let_def split: sum.splits)
next
  case ClickAdd
  with assms(1) show ?thesis
    by (auto simp: handler_defs Let_def)
next
  case (Settle i r)
  with assms show ?thesis
    by (cases r; cases "pending w ! i") (auto simp: handler_defs created_now_def)
qed (use assms(1) in auto)

lemma personaId_zero_run:
  "personaId w = Some 0 \<Longrightarrow> list_all (\<lambda>i. i = 0) (created_ids w evs) \<Longrightarrow>
   personaId (run evs w) = Some 0"
  by (induction evs arbitrary: w) (simp_all add: personaId_zero_step)

text \<open>
  Claim C10 says that after a create call fulfilled with id 0, every later invocation of
  \<^verbatim>\<open>addToPersona\<close> returns early. The record is stored, the section is shown and the
  next click on the second button changes nothing, as the claim says; but the first
  button is still enabled, and after a second create call fulfilled with id 1 the next
  click on the second button makes the request \<^verbatim>\<open>/persona/1/add_sample\<close>.
\<close>

theorem id_zero_never_refined_counterexample:
  "id_resp response_0 = 0 \<and>
   persona (run to_ready_0 init) = Some response_0 \<and>
   refinement_shown (run to_ready_0 init) \<and>
   \<not> add_disabled (run to_ready_0 init) \<and>
   step ClickAdd (run to_ready_0 init) = run to_ready_0 init \<and>
   map url (requests (run regenerated init)) =
     [js ''/persona/?name=Hemingwayish'', js ''/persona/?name=Hemingwayish'',
      js ''/persona/1/add_sample'']"
  by code_simp

text \<open>
  Claim C10, amended. When a create call is fulfilled with a response of id 0, the
  record is stored and the refinement section shown, and the PersonaId is 0. From then
  on, whatever is typed and clicked and whatever fails, as long as every create call
  fulfilled later brings the id 0 as well: \<^verbatim>\<open>addToPersona\<close> returns at its guard, as
  it does for an unset PersonaId, and a click on its button changes nothing and makes
  no request.
\<close>

theorem id_zero_never_refined:
  assumes "i < length (pending w)" and "pending w ! i = Create" and "id_resp d = 0"
    and "list_all (\<lambda>j. j = 0) (created_ids (step (Settle i (Fulfilled d)) w) evs)"
  shows "persona (step (Settle i (Fulfilled d)) w) = Some d \<and>
         refinement_shown (step (Settle i (Fulfilled d)) w) \<and>
         personaId (run evs (step (Settle i (Fulfilled d)) w)) = Some 0 \<and>
         addToPersona_begin (run evs (step (Settle i (Fulfilled d)) w)) =
           Finished (run evs (step (Settle i (Fulfilled d)) w)) \<and>
         addToPersona r (run evs (step (Settle i (Fulfilled d)) w)) =
           run evs (step (Settle i (Fulfilled d)) w) \<and>
         step ClickAdd (run evs (step (Settle i (Fulfilled d)) w)) =
           run evs (step (Settle i (Fulfilled d)) w)"
proof -
  let ?w = "step (Settle i (Fulfilled d)) w"
  from assms(1-3) have a: "persona ?w = Some d" "personaId ?w = Some 0"
    by (simp_all add: generatePersona_resume_def)
  from personaId_zero_run [OF a(2) assms(4)] have z: "personaId (run evs ?w) = Some 0" .
  then have n: "addToPersona_begin (run evs ?w) = Finished (run evs ?w)"
    by (simp add: addToPersona_begin_def)
  from a z n show ?thesis by (simp add: refinement_shown_def addToPersona_def)
qed

theorem id_zero_never_refined_witness:
  "pending (run to_generating init) = [Create] \<and>
   id_resp response_0 = 0 \<and>
   created_ids (step (Settle 0 (Fulfilled response_0)) (run to_generating init)) retries = [0] \<and>
   persona (step (Settle 0 (Fulfilled response_0)) (run to_generating init)) = Some response_0 \<and>
   refinement_shown (step (Settle 0 (Fulfilled response_0)) (run to_generating init)) \<and>
   \<not> add_disabled (run retries (step (Settle 0 (Fulfilled response_0)) (run to_generating init))) \<and>
   personaId (run retries (step (Settle 0 (Fulfilled response_0)) (run to_generating init))) = Some 0 \<and>
   step ClickAdd (run retries (step (Settle 0 (Fulfilled response_0)) (run to_generating init))) =
     run retries (step (Settle 0 (Fulfilled response_0)) (run to_generating init)) \<and>
   map url (requests (run retries (step (Settle 0 (Fulfilled response_0)) (run to_generating init)))) =
     [js ''/persona/?name=Hemingwayish'', js ''/persona/?name=Hemingwayish'',
      js ''/persona/?name=Hemingwayish'']"
proof -
  have p: "pending (run to_generating init) = [Create]" by code_simp
  then have l: "0 < length (pending (run to_generating init))"
    and c: "pending (run to_generating init) ! 0 = Create" by simp_all
  have z: "id_resp response_0 = 0" by (simp add: response_0_def)
  have b: "created_ids (step (Settle 0 (Fulfilled response_0)) (run to_generating init)) retries = [0]"
    by code_simp
  then have b': "list_all (\<lambda>j. j = 0)
      (created_ids (step (Settle 0 (Fulfilled response_0)) (run to_generating init)) retries)"
    by simp
  have e: "\<not> add_disabled (run retries (step (Settle 0 (Fulfilled response_0)) (run to_generating init)))"
    by code_simp
  have u: "map url (requests (run retries (step (Settle 0 (Fulfilled response_0)) (run to_generating init)))) =
     [js ''/persona/?name=Hemingwayish'', js ''/persona/?name=Hemingwayish'',
      js ''/persona/?name=Hemingwayish'']"
    by code_simp
  from id_zero_never_refined [OF l c z b'] p z b e u show ?thesis by simp
qed

end
